theory Spec2Isabelle
  imports Main "HOL-Library.Word"
begin

section \<open>The DMG background script\<close>

text \<open>
  The repository is one Python script, \<^verbatim>\<open>create_dmg_background.py\<close>, run top to bottom.
  It draws an arrow and a caption on a canvas with the imaging library, saves the canvas
  as a PNG, and does the same again at double resolution.

  The imaging library is not part of the repository. Its calls are modelled as follows.
  \<^item> A canvas is the size and fill colour given to \<^verbatim>\<open>Image.new\<close> and the drawing calls
    applied to it since, in order. What a drawing call does to the pixels is a parameter
    of the model (\<open>covers\<close>, \<open>ink\<close>), as are the text measurement and the PNG encoder.
  \<^item> Every call of the library, the save and the print may raise: the parameter \<open>fault\<close>
    says, for each call site of the script, whether that call raises and what.
    The script has no loop, so each call site runs at most once.
\<close>

subsection \<open>Data\<close>

type_synonym colour = "int \<times> int \<times> int"
type_synonym point = "int \<times> int"
type_synonym byte = "8 word"

text \<open>A Python exception, named by its class.\<close>

datatype exn = Exception string

text \<open>
  A font object: the one \<^verbatim>\<open>ImageFont.truetype(path, size)\<close> returns, or the built-in one
  that \<^verbatim>\<open>ImageFont.load_default()\<close> returns.
\<close>

datatype pil_font = FreeTypeFont string int | DefaultFont

datatype draw_op =
    Line "point list" colour int
  | Polygon "point list" colour
  | Text point string colour pil_font

record image =
  im_mode :: string
  im_size :: "int \<times> int"
  im_bg :: colour
  im_ops :: "draw_op list"

text \<open>The two renders of the script, and the calls each of them makes.\<close>

datatype pass = Base | Retina

datatype step =
    New | Draw | DrawLine | DrawPolygon | Truetype | LoadDefault
  | Textbbox | DrawText | Save | Print

record env =
  fault :: "pass \<Rightarrow> step \<Rightarrow> exn option"
  textbbox_of :: "pil_font \<Rightarrow> point \<Rightarrow> string \<Rightarrow> int \<times> int \<times> int \<times> int"
  png :: "image \<Rightarrow> byte list"
  partial_write :: "pass \<Rightarrow> byte list option \<Rightarrow> byte list option"
  covers :: "draw_op \<Rightarrow> point \<Rightarrow> bool"
  ink :: "draw_op \<Rightarrow> point \<Rightarrow> colour \<Rightarrow> colour"

text \<open>What the process can change: the files of the working directory and standard output.\<close>

record world =
  files :: "string \<rightharpoonup> byte list"
  stdout :: "string list"

subsection \<open>The library calls\<close>

definition bind_result :: "exn + 'a \<Rightarrow> ('a \<Rightarrow> exn + 'b) \<Rightarrow> exn + 'b" where
  "bind_result m f = (case m of Inl e \<Rightarrow> Inl e | Inr x \<Rightarrow> f x)"

definition call :: "env \<Rightarrow> pass \<Rightarrow> step \<Rightarrow> 'a \<Rightarrow> exn + 'a" where
  "call env p s v = (case fault env p s of Some e \<Rightarrow> Inl e | None \<Rightarrow> Inr v)"

definition Image_new ::
  "env \<Rightarrow> pass \<Rightarrow> string \<Rightarrow> int \<times> int \<Rightarrow> colour \<Rightarrow> exn + image" where
  "Image_new env p mode sz color =
     call env p New \<lparr>im_mode = mode, im_size = sz, im_bg = color, im_ops = []\<rparr>"

definition ImageDraw_Draw :: "env \<Rightarrow> pass \<Rightarrow> image \<Rightarrow> exn + image" where
  "ImageDraw_Draw env p img = call env p Draw img"

definition draw_line :: "env \<Rightarrow> pass \<Rightarrow> image \<Rightarrow> point list \<Rightarrow> colour \<Rightarrow> int \<Rightarrow> exn + image" where
  "draw_line env p img xy fill width =
     call env p DrawLine (img\<lparr>im_ops := im_ops img @ [Line xy fill width]\<rparr>)"

definition draw_polygon :: "env \<Rightarrow> pass \<Rightarrow> image \<Rightarrow> point list \<Rightarrow> colour \<Rightarrow> exn + image" where
  "draw_polygon env p img xy fill =
     call env p DrawPolygon (img\<lparr>im_ops := im_ops img @ [Polygon xy fill]\<rparr>)"

definition ImageFont_truetype :: "env \<Rightarrow> pass \<Rightarrow> string \<Rightarrow> int \<Rightarrow> exn + pil_font" where
  "ImageFont_truetype env p path sz = call env p Truetype (FreeTypeFont path sz)"

definition ImageFont_load_default :: "env \<Rightarrow> pass \<Rightarrow> exn + pil_font" where
  "ImageFont_load_default env p = call env p LoadDefault DefaultFont"

definition draw_textbbox ::
  "env \<Rightarrow> pass \<Rightarrow> point \<Rightarrow> string \<Rightarrow> pil_font \<Rightarrow> exn + (int \<times> int \<times> int \<times> int)" where
  "draw_textbbox env p xy s f = call env p Textbbox (textbbox_of env f xy s)"

definition draw_text ::
  "env \<Rightarrow> pass \<Rightarrow> image \<Rightarrow> point \<Rightarrow> string \<Rightarrow> colour \<Rightarrow> pil_font \<Rightarrow> exn + image" where
  "draw_text env p img xy s fill f =
     call env p DrawText (img\<lparr>im_ops := im_ops img @ [Text xy s fill f]\<rparr>)"

text \<open>
  \<^verbatim>\<open>img.save(path)\<close> replaces the file of that name with the encoded canvas. When it raises,
  the file of that name holds what the failed write left (\<open>partial_write\<close>) and no other
  file is touched.
\<close>

definition Image_save :: "env \<Rightarrow> pass \<Rightarrow> image \<Rightarrow> string \<Rightarrow> world \<Rightarrow> exn option \<times> world" where
  "Image_save env p img path w =
     (case fault env p Save of
        Some e \<Rightarrow> (Some e, w\<lparr>files := (files w)(path := partial_write env p (files w path))\<rparr>)
      | None \<Rightarrow> (None, w\<lparr>files := (files w)(path \<mapsto> png env img)\<rparr>))"

text \<open>\<^verbatim>\<open>print(s)\<close> adds the line to standard output; when it raises, nothing is added.\<close>

definition print_line :: "env \<Rightarrow> pass \<Rightarrow> string \<Rightarrow> world \<Rightarrow> exn option \<times> world" where
  "print_line env p s w =
     (case fault env p Print of
        Some e \<Rightarrow> (Some e, w)
      | None \<Rightarrow> (None, w\<lparr>stdout := stdout w @ [s]\<rparr>))"

text \<open>The pixel of a canvas: the fill colour, then each drawing call where it covers the pixel.\<close>

definition paint :: "env \<Rightarrow> draw_op \<Rightarrow> (point \<Rightarrow> colour) \<Rightarrow> point \<Rightarrow> colour" where
  "paint env op pix = (\<lambda>q. if covers env op q then ink env op q (pix q) else pix q)"

definition pixel :: "env \<Rightarrow> image \<Rightarrow> point \<Rightarrow> colour" where
  "pixel env img = fold (paint env) (im_ops img) (\<lambda>q. im_bg img)"

subsection \<open>The base render (lines 7 to 63)\<close>

definition WIDTH :: int where "WIDTH = 660"
definition HEIGHT :: int where "HEIGHT = 400"

definition arrow_y :: int where "arrow_y = 190"
definition arrow_start_x :: int where "arrow_start_x = 250"
definition arrow_end_x :: int where "arrow_end_x = 400"
definition arrow_width :: int where "arrow_width = 2"

definition arrow_head_size :: int where "arrow_head_size = 20"

definition arrow_head :: "point list" where
  "arrow_head =
     [(arrow_end_x + 2, arrow_y),
      (arrow_end_x - arrow_head_size, arrow_y - arrow_head_size div 2),
      (arrow_end_x - arrow_head_size, arrow_y + arrow_head_size div 2)]"

text \<open>The \<^verbatim>\<open>try\<close> block of lines 44 to 49: a bare \<^verbatim>\<open>except\<close> catches every exception.\<close>

definition font :: "env \<Rightarrow> exn + pil_font" where
  "font env =
     (case ImageFont_truetype env Base ''/System/Library/Fonts/Helvetica.ttc'' 14 of
        Inr f \<Rightarrow> Inr f
      | Inl e \<Rightarrow> ImageFont_load_default env Base)"

definition text_str :: string where "text_str = ''Drag to install''"

definition text_width :: "int \<times> int \<times> int \<times> int \<Rightarrow> int" where
  "text_width bbox = (case bbox of (x0, y0, x1, y1) \<Rightarrow> x1 - x0)"

definition text_x :: "int \<times> int \<times> int \<times> int \<Rightarrow> int" where
  "text_x bbox = (arrow_start_x + arrow_end_x) div 2 - text_width bbox div 2"

definition text_y :: int where "text_y = arrow_y + 12"

definition output_path :: string where "output_path = ''dmg-background.png''"

definition compose_base :: "env \<Rightarrow> exn + image" where
  "compose_base env =
     bind_result (Image_new env Base ''RGB'' (WIDTH, HEIGHT) (240, 240, 245)) (\<lambda>img.
     bind_result (ImageDraw_Draw env Base img) (\<lambda>img.
     bind_result (draw_line env Base img
         [(arrow_start_x, arrow_y), (arrow_end_x, arrow_y)] (150, 150, 160) arrow_width) (\<lambda>img.
     bind_result (draw_polygon env Base img arrow_head (150, 150, 160)) (\<lambda>img.
     bind_result (font env) (\<lambda>f.
     bind_result (draw_textbbox env Base (0, 0) text_str f) (\<lambda>bbox.
     draw_text env Base img (text_x bbox, text_y) text_str (100, 100, 110) f))))))"

definition render_base :: "env \<Rightarrow> world \<Rightarrow> exn option \<times> world" where
  "render_base env w =
     (case compose_base env of
        Inl e \<Rightarrow> (Some e, w)
      | Inr img \<Rightarrow>
          (case Image_save env Base img output_path w of
             (Some e, w') \<Rightarrow> (Some e, w')
           | (None, w') \<Rightarrow> print_line env Base (''DMG background created: '' @ output_path) w'))"

subsection \<open>The double-resolution render (lines 66 to 104)\<close>

definition arrow_y_2x :: int where "arrow_y_2x = 190 * 2"
definition arrow_start_x_2x :: int where "arrow_start_x_2x = 250 * 2"
definition arrow_end_x_2x :: int where "arrow_end_x_2x = 400 * 2"
definition arrow_width_2x :: int where "arrow_width_2x = 2 * 2"

definition arrow_head_2x :: "point list" where
  "arrow_head_2x =
     [(arrow_end_x_2x + 4, arrow_y_2x),
      (arrow_end_x_2x - arrow_head_size * 2, arrow_y_2x - arrow_head_size),
      (arrow_end_x_2x - arrow_head_size * 2, arrow_y_2x + arrow_head_size)]"

definition font_2x :: "env \<Rightarrow> exn + pil_font" where
  "font_2x env =
     (case ImageFont_truetype env Retina ''/System/Library/Fonts/Helvetica.ttc'' 28 of
        Inr f \<Rightarrow> Inr f
      | Inl e \<Rightarrow> ImageFont_load_default env Retina)"

definition text_x_2x :: "int \<times> int \<times> int \<times> int \<Rightarrow> int" where
  "text_x_2x bbox_2x = (arrow_start_x_2x + arrow_end_x_2x) div 2 - text_width bbox_2x div 2"

definition text_y_2x :: int where "text_y_2x = arrow_y_2x + 24"

definition output_path_2x :: string where "output_path_2x = ''dmg-background@2x.png''"

definition compose_2x :: "env \<Rightarrow> exn + image" where
  "compose_2x env =
     bind_result (Image_new env Retina ''RGB'' (WIDTH * 2, HEIGHT * 2) (240, 240, 245)) (\<lambda>img.
     bind_result (ImageDraw_Draw env Retina img) (\<lambda>img.
     bind_result (draw_line env Retina img
         [(arrow_start_x_2x, arrow_y_2x), (arrow_end_x_2x, arrow_y_2x)]
         (150, 150, 160) arrow_width_2x) (\<lambda>img.
     bind_result (draw_polygon env Retina img arrow_head_2x (150, 150, 160)) (\<lambda>img.
     bind_result (font_2x env) (\<lambda>f.
     bind_result (draw_textbbox env Retina (0, 0) text_str f) (\<lambda>bbox_2x.
     draw_text env Retina img (text_x_2x bbox_2x, text_y_2x) text_str (100, 100, 110) f))))))"

definition render_2x :: "env \<Rightarrow> world \<Rightarrow> exn option \<times> world" where
  "render_2x env w =
     (case compose_2x env of
        Inl e \<Rightarrow> (Some e, w)
      | Inr img \<Rightarrow>
          (case Image_save env Retina img output_path_2x w of
             (Some e, w') \<Rightarrow> (Some e, w')
           | (None, w') \<Rightarrow>
               print_line env Retina (''DMG background @2x created: '' @ output_path_2x) w'))"

subsection \<open>The whole script\<close>

text \<open>
  The result is the exception that ended the process, if any, and the world it left.
  \<open>None\<close> is a run to the last line.
\<close>

definition script :: "env \<Rightarrow> world \<Rightarrow> exn option \<times> world" where
  "script env w =
     (case render_base env w of
        (Some e, w') \<Rightarrow> (Some e, w')
      | (None, w') \<Rightarrow> render_2x env w')"


subsection \<open>The compositor as the specification words it\<close>

text \<open>
  The specification describes one compositor, run twice: steps 1 to 7 on a set of layout
  constants, then the same steps with every layout constant multiplied by 2 and a larger
  font size. The definitions below follow those words; they are compared with the two
  renders of the script further down.
\<close>

record layout =
  canvas_w :: int
  canvas_h :: int
  line_y :: int
  line_start_x :: int
  line_end_x :: int
  line_width :: int
  tip_offset :: int
  head_size :: int
  head_half :: int
  text_dy :: int
  font_size :: int

definition base_layout :: layout where
  "base_layout =
     \<lparr>canvas_w = WIDTH, canvas_h = HEIGHT, line_y = arrow_y, line_start_x = arrow_start_x,
      line_end_x = arrow_end_x, line_width = arrow_width, tip_offset = 2,
      head_size = arrow_head_size, head_half = arrow_head_size div 2, text_dy = 12,
      font_size = 14\<rparr>"

definition scale_layout :: "int \<Rightarrow> layout \<Rightarrow> layout" where
  "scale_layout k l =
     \<lparr>canvas_w = canvas_w l * k, canvas_h = canvas_h l * k, line_y = line_y l * k,
      line_start_x = line_start_x l * k, line_end_x = line_end_x l * k,
      line_width = line_width l * k, tip_offset = tip_offset l * k,
      head_size = head_size l * k, head_half = head_half l * k, text_dy = text_dy l * k,
      font_size = font_size l * k\<rparr>"

definition select_font :: "env \<Rightarrow> pass \<Rightarrow> int \<Rightarrow> exn + pil_font" where
  "select_font env p sz =
     (case ImageFont_truetype env p ''/System/Library/Fonts/Helvetica.ttc'' sz of
        Inr f \<Rightarrow> Inr f
      | Inl e \<Rightarrow> ImageFont_load_default env p)"

definition compose_layout :: "env \<Rightarrow> pass \<Rightarrow> layout \<Rightarrow> exn + image" where
  "compose_layout env p l =
     bind_result (Image_new env p ''RGB'' (canvas_w l, canvas_h l) (240, 240, 245)) (\<lambda>img.
     bind_result (ImageDraw_Draw env p img) (\<lambda>img.
     bind_result (draw_line env p img
         [(line_start_x l, line_y l), (line_end_x l, line_y l)] (150, 150, 160) (line_width l)) (\<lambda>img.
     bind_result (draw_polygon env p img
         [(line_end_x l + tip_offset l, line_y l),
          (line_end_x l - head_size l, line_y l - head_half l),
          (line_end_x l - head_size l, line_y l + head_half l)] (150, 150, 160)) (\<lambda>img.
     bind_result (select_font env p (font_size l)) (\<lambda>f.
     bind_result (draw_textbbox env p (0, 0) ''Drag to install'' f) (\<lambda>bbox.
     draw_text env p img
       ((line_start_x l + line_end_x l) div 2 - text_width bbox div 2, line_y l + text_dy l)
       ''Drag to install'' (100, 100, 110) f))))))"

definition render_layout ::
  "env \<Rightarrow> pass \<Rightarrow> layout \<Rightarrow> string \<Rightarrow> string \<Rightarrow> world \<Rightarrow> exn option \<times> world" where
  "render_layout env p l path msg w =
     (case compose_layout env p l of
        Inl e \<Rightarrow> (Some e, w)
      | Inr img \<Rightarrow>
          (case Image_save env p img path w of
             (Some e, w') \<Rightarrow> (Some e, w')
           | (None, w') \<Rightarrow> print_line env p (msg @ path) w'))"

subsection \<open>Sample environments\<close>

text \<open>
  A simple stand-in for the library, used to run the script on concrete inputs: text is
  measured at a fixed advance per character, a drawing call covers the bounding box of its
  points (widened by half the line width, or extended by the measured text) and paints it
  in the fill colour, and the encoder writes the canvas size and the number of drawing calls.
\<close>

definition glyph_w :: "pil_font \<Rightarrow> int" where
  "glyph_w f = (case f of FreeTypeFont path sz \<Rightarrow> sz div 2 | DefaultFont \<Rightarrow> 6)"

definition glyph_h :: "pil_font \<Rightarrow> int" where
  "glyph_h f = (case f of FreeTypeFont path sz \<Rightarrow> sz | DefaultFont \<Rightarrow> 11)"

definition sample_textbbox :: "pil_font \<Rightarrow> point \<Rightarrow> string \<Rightarrow> int \<times> int \<times> int \<times> int" where
  "sample_textbbox f xy s =
     (fst xy, snd xy, fst xy + glyph_w f * int (length s), snd xy + glyph_h f)"

definition in_box :: "int \<times> int \<times> int \<times> int \<Rightarrow> point \<Rightarrow> bool" where
  "in_box b q = (case b of (x0, y0, x1, y1) \<Rightarrow> x0 \<le> fst q \<and> fst q \<le> x1 \<and> y0 \<le> snd q \<and> snd q \<le> y1)"

definition hull :: "point list \<Rightarrow> int \<Rightarrow> int \<times> int \<times> int \<times> int" where
  "hull xy m =
     (fold min (map fst xy) (fst (hd xy)) - m, fold min (map snd xy) (snd (hd xy)) - m,
      fold max (map fst xy) (fst (hd xy)) + m, fold max (map snd xy) (snd (hd xy)) + m)"

definition sample_covers :: "draw_op \<Rightarrow> point \<Rightarrow> bool" where
  "sample_covers op q =
     (case op of
        Line xy c wd \<Rightarrow> xy \<noteq> [] \<and> in_box (hull xy (wd div 2)) q
      | Polygon xy c \<Rightarrow> xy \<noteq> [] \<and> in_box (hull xy 0) q
      | Text xy s c f \<Rightarrow> in_box (sample_textbbox f xy s) q)"

definition sample_ink :: "draw_op \<Rightarrow> point \<Rightarrow> colour \<Rightarrow> colour" where
  "sample_ink op q old = (case op of Line xy c wd \<Rightarrow> c | Polygon xy c \<Rightarrow> c | Text xy s c f \<Rightarrow> c)"

definition sample_png :: "image \<Rightarrow> byte list" where
  "sample_png img =
     [of_int (fst (im_size img) div 256), of_int (fst (im_size img)),
      of_int (snd (im_size img) div 256), of_int (snd (im_size img)),
      of_nat (length (im_ops img))]"

text \<open>The font file is there and nothing raises.\<close>

definition env_helvetica :: env where
  "env_helvetica =
     \<lparr>fault = (\<lambda>p s. None), textbbox_of = sample_textbbox, png = sample_png,
      partial_write = (\<lambda>p old. old), covers = sample_covers, ink = sample_ink\<rparr>"

text \<open>The font file is missing (any machine that is not a Mac): both loads raise.\<close>

definition env_fallback :: env where
  "env_fallback =
     \<lparr>fault = (\<lambda>p s. if s = Truetype then Some (Exception ''OSError'') else None),
      textbbox_of = sample_textbbox, png = sample_png,
      partial_write = (\<lambda>p old. old), covers = sample_covers, ink = sample_ink\<rparr>"

text \<open>The font file is missing and the second save raises, leaving an empty file.\<close>

definition env_disk_full :: env where
  "env_disk_full =
     \<lparr>fault = (\<lambda>p s. if s = Truetype \<or> (p = Retina \<and> s = Save)
                      then Some (Exception ''OSError'') else None),
      textbbox_of = sample_textbbox, png = sample_png,
      partial_write = (\<lambda>p old. Some []), covers = sample_covers, ink = sample_ink\<rparr>"

definition canvas_fallback :: image where
  "canvas_fallback =
     \<lparr>im_mode = ''RGB'', im_size = (660, 400), im_bg = (240, 240, 245),
      im_ops = [Line [(250, 190), (400, 190)] (150, 150, 160) 2,
                Polygon [(402, 190), (380, 180), (380, 200)] (150, 150, 160),
                Text (280, 202) ''Drag to install'' (100, 100, 110) DefaultFont]\<rparr>"

definition canvas_fallback_2x :: image where
  "canvas_fallback_2x =
     \<lparr>im_mode = ''RGB'', im_size = (1320, 800), im_bg = (240, 240, 245),
      im_ops = [Line [(500, 380), (800, 380)] (150, 150, 160) 4,
                Polygon [(804, 380), (760, 360), (760, 400)] (150, 150, 160),
                Text (605, 404) ''Drag to install'' (100, 100, 110) DefaultFont]\<rparr>"

definition empty_world :: world where
  "empty_world = \<lparr>files = Map.empty, stdout = []\<rparr>"

text \<open>A working directory that already holds two files of the output names.\<close>

definition stale_world :: world where
  "stale_world =
     \<lparr>files = [''dmg-background.png'' \<mapsto> [1, 2, 3], ''dmg-background@2x.png'' \<mapsto> [4]],
      stdout = []\<rparr>"

section \<open>Properties\<close>

subsection \<open>Auxiliary facts\<close>

lemmas lib_defs = bind_result_def call_def Image_new_def ImageDraw_Draw_def draw_line_def
  draw_polygon_def ImageFont_truetype_def ImageFont_load_default_def draw_textbbox_def
  draw_text_def

lemmas const_defs = WIDTH_def HEIGHT_def arrow_y_def arrow_start_x_def arrow_end_x_def
  arrow_width_def arrow_head_size_def arrow_head_def text_str_def text_x_def text_y_def
  arrow_y_2x_def arrow_start_x_2x_def arrow_end_x_2x_def arrow_width_2x_def arrow_head_2x_def
  text_x_2x_def text_y_2x_def output_path_def output_path_2x_def

lemmas sample_defs = env_helvetica_def env_fallback_def env_disk_full_def sample_textbbox_def
  glyph_w_def glyph_h_def sample_covers_def sample_ink_def in_box_def hull_def
  canvas_fallback_def canvas_fallback_2x_def empty_world_def stale_world_def

lemma compose_base_ok:
  assumes "compose_base env = Inr img"
  shows "\<exists>f. font env = Inr f \<and> img = \<lparr>im_mode = ''RGB'', im_size = (660, 400), im_bg = (240, 240, 245),
     im_ops = [Line [(250, 190), (400, 190)] (150, 150, 160) 2,
               Polygon [(402, 190), (380, 180), (380, 200)] (150, 150, 160),
               Text (325 - text_width (textbbox_of env f (0, 0) ''Drag to install'') div 2, 202)
                 ''Drag to install'' (100, 100, 110) f]\<rparr>"
  using assms
  by (auto simp: compose_base_def lib_defs const_defs split: option.splits sum.splits)

lemma compose_2x_ok:
  assumes "compose_2x env = Inr img"
  shows "\<exists>f. font_2x env = Inr f \<and> img = \<lparr>im_mode = ''RGB'', im_size = (1320, 800), im_bg = (240, 240, 245),
     im_ops = [Line [(500, 380), (800, 380)] (150, 150, 160) 4,
               Polygon [(804, 380), (760, 360), (760, 400)] (150, 150, 160),
               Text (650 - text_width (textbbox_of env f (0, 0) ''Drag to install'') div 2, 404)
                 ''Drag to install'' (100, 100, 110) f]\<rparr>"
  using assms
  by (auto simp: compose_2x_def lib_defs const_defs split: option.splits sum.splits)

lemma compose_base_fallback: "compose_base env_fallback = Inr canvas_fallback"
  by (simp add: compose_base_def font_def lib_defs const_defs sample_defs text_width_def)

lemma compose_2x_fallback: "compose_2x env_fallback = Inr canvas_fallback_2x"
  by (simp add: compose_2x_def font_2x_def lib_defs const_defs sample_defs text_width_def)

lemma compose_base_disk_full: "compose_base env_disk_full = Inr canvas_fallback"
  by (simp add: compose_base_def font_def lib_defs const_defs sample_defs text_width_def)

lemma compose_2x_disk_full: "compose_2x env_disk_full = Inr canvas_fallback_2x"
  by (simp add: compose_2x_def font_2x_def lib_defs const_defs sample_defs text_width_def)


lemma render_base_ok:
  assumes "render_base env w = (None, w1)"
  shows "\<exists>img. compose_base env = Inr img \<and> fault env Base Save = None \<and>
           fault env Base Print = None \<and>
           w1 = w\<lparr>files := (files w)(''dmg-background.png'' \<mapsto> png env img),
                  stdout := stdout w @ [''DMG background created: dmg-background.png'']\<rparr>"
  using assms
  by (auto simp: render_base_def Image_save_def print_line_def output_path_def
      split: sum.splits option.splits)

lemma render_2x_ok:
  assumes "render_2x env w = (None, w2)"
  shows "\<exists>img. compose_2x env = Inr img \<and> fault env Retina Save = None \<and>
           fault env Retina Print = None \<and>
           w2 = w\<lparr>files := (files w)(''dmg-background@2x.png'' \<mapsto> png env img),
                  stdout := stdout w @ [''DMG background @2x created: dmg-background@2x.png'']\<rparr>"
  using assms
  by (auto simp: render_2x_def Image_save_def print_line_def output_path_2x_def
      split: sum.splits option.splits)

lemma script_ok:
  assumes "script env w = (None, w2)"
  shows "\<exists>w1. render_base env w = (None, w1) \<and> render_2x env w1 = (None, w2)"
  using assms by (auto simp: script_def split: prod.splits option.splits)

lemma env_fallback_sel:
  "fault env_fallback p s = (if s = Truetype then Some (Exception ''OSError'') else None)"
  "png env_fallback = sample_png"
  "textbbox_of env_fallback = sample_textbbox"
  "covers env_fallback = sample_covers"
  "ink env_fallback = sample_ink"
  by (simp_all add: env_fallback_def)

lemma script_fallback:
  "script env_fallback w =
     (None, w\<lparr>files := (files w)(''dmg-background.png'' \<mapsto> sample_png canvas_fallback,
                                 ''dmg-background@2x.png'' \<mapsto> sample_png canvas_fallback_2x),
              stdout := stdout w @ [''DMG background created: dmg-background.png'',
                                    ''DMG background @2x created: dmg-background@2x.png'']\<rparr>)"
  by (simp add: script_def render_base_def render_2x_def compose_base_fallback
      compose_2x_fallback Image_save_def print_line_def output_path_def output_path_2x_def
      env_fallback_sel)

lemma render_base_unfold:
  "render_base env w =
     (case compose_base env of
        Inl e \<Rightarrow> (Some e, w)
      | Inr img \<Rightarrow>
          (case fault env Base Save of
             Some e \<Rightarrow>
               (Some e, w\<lparr>files := (files w)(''dmg-background.png'' :=
                                 partial_write env Base (files w ''dmg-background.png''))\<rparr>)
           | None \<Rightarrow>
               (case fault env Base Print of
                  Some e \<Rightarrow>
                    (Some e, w\<lparr>files := (files w)(''dmg-background.png'' \<mapsto> png env img)\<rparr>)
                | None \<Rightarrow>
                    (None, w\<lparr>files := (files w)(''dmg-background.png'' \<mapsto> png env img),
                             stdout := stdout w @
                               [''DMG background created: dmg-background.png'']\<rparr>))))"
  by (simp add: render_base_def Image_save_def print_line_def output_path_def
      split: sum.splits option.splits)

lemma render_2x_unfold:
  "render_2x env w =
     (case compose_2x env of
        Inl e \<Rightarrow> (Some e, w)
      | Inr img \<Rightarrow>
          (case fault env Retina Save of
             Some e \<Rightarrow>
               (Some e, w\<lparr>files := (files w)(''dmg-background@2x.png'' :=
                                 partial_write env Retina (files w ''dmg-background@2x.png''))\<rparr>)
           | None \<Rightarrow>
               (case fault env Retina Print of
                  Some e \<Rightarrow>
                    (Some e, w\<lparr>files := (files w)(''dmg-background@2x.png'' \<mapsto> png env img)\<rparr>)
                | None \<Rightarrow>
                    (None, w\<lparr>files := (files w)(''dmg-background@2x.png'' \<mapsto> png env img),
                             stdout := stdout w @
                               [''DMG background @2x created: dmg-background@2x.png'']\<rparr>))))"
  by (simp add: render_2x_def Image_save_def print_line_def output_path_2x_def
      split: sum.splits option.splits)

lemma compose_base_runs:
  assumes "\<And>s. s \<noteq> Truetype \<Longrightarrow> fault env Base s = None"
  shows "\<exists>img. compose_base env = Inr img"
  by (simp add: compose_base_def font_def lib_defs assms split: option.splits)

lemma compose_2x_runs:
  assumes "\<And>s. s \<noteq> Truetype \<Longrightarrow> fault env Retina s = None"
  shows "\<exists>img. compose_2x env = Inr img"
  by (simp add: compose_2x_def font_2x_def lib_defs assms split: option.splits)

lemma fold_paint_frame:
  "(\<forall>op \<in> set ops. \<not> covers env op q) \<Longrightarrow> fold (paint env) ops pix q = pix q"
  by (induction ops arbitrary: pix) (simp_all add: paint_def)

lemma env_disk_full_sel:
  "fault env_disk_full p s =
     (if s = Truetype \<or> (p = Retina \<and> s = Save) then Some (Exception ''OSError'') else None)"
  "png env_disk_full = sample_png"
  "partial_write env_disk_full p old = Some []"
  by (simp_all add: env_disk_full_def)

lemma fst_render_base: "fst (render_base env w) = fst (render_base env v)"
  by (simp add: render_base_unfold split: sum.splits option.splits)

lemma fst_render_2x: "fst (render_2x env w) = fst (render_2x env v)"
  by (simp add: render_2x_unfold split: sum.splits option.splits)

lemma fst_script:
  "fst (script env w) =
     (case fst (render_base env w) of
        Some e \<Rightarrow> Some e
      | None \<Rightarrow> fst (render_2x env (snd (render_base env w))))"
  by (simp add: script_def split: prod.splits option.splits)

lemma fst_script_any: "fst (script env w) = fst (script env v)"
proof -
  have "fst (render_2x env (snd (render_base env w))) =
      fst (render_2x env (snd (render_base env v)))"
    by (rule fst_render_2x)
  then show ?thesis
    using fst_render_base [of env w v] by (simp add: fst_script split: option.splits)
qed

lemma script_done:
  assumes "fst (script env w) = None"
  shows "\<exists>img img_2x. compose_base env = Inr img \<and> compose_2x env = Inr img_2x \<and>
     snd (script env w) =
       w\<lparr>files := (files w)(''dmg-background.png'' \<mapsto> png env img,
                            ''dmg-background@2x.png'' \<mapsto> png env img_2x),
         stdout := stdout w @ [''DMG background created: dmg-background.png'',
                               ''DMG background @2x created: dmg-background@2x.png'']\<rparr>"
proof -
  have run: "script env w = (None, snd (script env w))"
    using assms by (metis prod.collapse)
  obtain w1 where b: "render_base env w = (None, w1)"
    and r: "render_2x env w1 = (None, snd (script env w))"
    using script_ok [OF run] by blast
  from render_base_ok [OF b] render_2x_ok [OF r] show ?thesis by auto
qed

subsection \<open>Canvas sizes\<close>

text \<open>
  C1. The script makes two canvases. The base one is 660 by 400 pixels, the second one is
  1320 by 800, which is \<open>WIDTH * 2\<close> by \<open>HEIGHT * 2\<close>. A run that reaches the last line has
  saved exactly these two canvases, one under each output name.
\<close>

theorem image_dimensions:
  "(compose_base env = Inr img \<longrightarrow> im_size img = (660, 400)) \<and>
   (compose_2x env = Inr img_2x \<longrightarrow>
      im_size img_2x = (1320, 800) \<and> im_size img_2x = (WIDTH * 2, HEIGHT * 2)) \<and>
   (script env w = (None, w') \<longrightarrow>
      (\<exists>a b. compose_base env = Inr a \<and> compose_2x env = Inr b \<and>
             files w' output_path = Some (png env a) \<and>
             files w' output_path_2x = Some (png env b)))"
proof -
  have base: "compose_base env = Inr img \<longrightarrow> im_size img = (660, 400)"
    using compose_base_ok [of env img] by auto
  have retina: "compose_2x env = Inr img_2x \<longrightarrow>
      im_size img_2x = (1320, 800) \<and> im_size img_2x = (WIDTH * 2, HEIGHT * 2)"
    using compose_2x_ok [of env img_2x] by (auto simp: WIDTH_def HEIGHT_def)
  have saved: "\<exists>a b. compose_base env = Inr a \<and> compose_2x env = Inr b \<and>
             files w' output_path = Some (png env a) \<and>
             files w' output_path_2x = Some (png env b)"
    if run: "script env w = (None, w')"
  proof -
    obtain w1 where b: "render_base env w = (None, w1)" and r: "render_2x env w1 = (None, w')"
      using script_ok [OF run] by blast
    from render_base_ok [OF b] render_2x_ok [OF r] show ?thesis
      by (auto simp: output_path_def output_path_2x_def)
  qed
  from base retina saved show ?thesis by blast
qed

theorem image_dimensions_witness:
  "compose_base env_fallback = Inr canvas_fallback \<and> im_size canvas_fallback = (660, 400) \<and>
   compose_2x env_fallback = Inr canvas_fallback_2x \<and>
   im_size canvas_fallback_2x = (1320, 800) \<and>
   fst (script env_fallback empty_world) = None \<and>
   files (snd (script env_fallback empty_world)) output_path \<noteq> None \<and>
   files (snd (script env_fallback empty_world)) output_path_2x \<noteq> None"
  using image_dimensions [of env_fallback canvas_fallback canvas_fallback_2x empty_world
      "snd (script env_fallback empty_world)"]
  by (simp add: compose_base_fallback compose_2x_fallback script_fallback)

subsection \<open>The arrow\<close>

text \<open>
  C2. The only line drawn on the base canvas is the horizontal segment from (250,190) to
  (400,190), in colour (150,150,160), of width 2. The only line drawn on the second canvas
  is the segment from (500,380) to (800,380), in the same colour, of width 4.
\<close>

theorem arrow_line:
  "(compose_base env = Inr img \<longrightarrow>
      (\<forall>xy c wd. Line xy c wd \<in> set (im_ops img) \<longleftrightarrow>
         xy = [(250, 190), (400, 190)] \<and> c = (150, 150, 160) \<and> wd = 2)) \<and>
   (compose_2x env = Inr img_2x \<longrightarrow>
      (\<forall>xy c wd. Line xy c wd \<in> set (im_ops img_2x) \<longleftrightarrow>
         xy = [(500, 380), (800, 380)] \<and> c = (150, 150, 160) \<and> wd = 4))"
proof (intro conjI impI)
  assume "compose_base env = Inr img"
  from compose_base_ok [OF this]
  show "\<forall>xy c wd. Line xy c wd \<in> set (im_ops img) \<longleftrightarrow>
         xy = [(250, 190), (400, 190)] \<and> c = (150, 150, 160) \<and> wd = 2"
    by auto
next
  assume "compose_2x env = Inr img_2x"
  from compose_2x_ok [OF this]
  show "\<forall>xy c wd. Line xy c wd \<in> set (im_ops img_2x) \<longleftrightarrow>
         xy = [(500, 380), (800, 380)] \<and> c = (150, 150, 160) \<and> wd = 4"
    by auto
qed

theorem arrow_line_witness:
  "compose_base env_fallback = Inr canvas_fallback \<and>
   Line [(250, 190), (400, 190)] (150, 150, 160) 2 \<in> set (im_ops canvas_fallback) \<and>
   compose_2x env_fallback = Inr canvas_fallback_2x \<and>
   Line [(500, 380), (800, 380)] (150, 150, 160) 4 \<in> set (im_ops canvas_fallback_2x)"
  using arrow_line [of env_fallback canvas_fallback canvas_fallback_2x]
  by (simp add: compose_base_fallback compose_2x_fallback)

text \<open>
  C3. The only polygon drawn on the base canvas is the triangle with apex (402,190) and base
  corners (380,180) and (380,200), filled in colour (150,150,160). The only polygon drawn on
  the second canvas has each vertex at twice those coordinates: apex (804,380), base corners
  (760,360) and (760,400).
\<close>

theorem arrow_head_triangle:
  "(compose_base env = Inr img \<longrightarrow>
      (\<forall>xy c. Polygon xy c \<in> set (im_ops img) \<longleftrightarrow>
         xy = [(402, 190), (380, 180), (380, 200)] \<and> c = (150, 150, 160))) \<and>
   (compose_2x env = Inr img_2x \<longrightarrow>
      (\<forall>xy c. Polygon xy c \<in> set (im_ops img_2x) \<longleftrightarrow>
         xy = [(804, 380), (760, 360), (760, 400)] \<and> c = (150, 150, 160))) \<and>
   arrow_head_2x = map (\<lambda>(x, y). (2 * x, 2 * y)) arrow_head"
proof (intro conjI impI)
  assume "compose_base env = Inr img"
  from compose_base_ok [OF this]
  show "\<forall>xy c. Polygon xy c \<in> set (im_ops img) \<longleftrightarrow>
         xy = [(402, 190), (380, 180), (380, 200)] \<and> c = (150, 150, 160)"
    by auto
next
  assume "compose_2x env = Inr img_2x"
  from compose_2x_ok [OF this]
  show "\<forall>xy c. Polygon xy c \<in> set (im_ops img_2x) \<longleftrightarrow>
         xy = [(804, 380), (760, 360), (760, 400)] \<and> c = (150, 150, 160)"
    by auto
next
  show "arrow_head_2x = map (\<lambda>(x, y). (2 * x, 2 * y)) arrow_head"
    by (simp add: const_defs)
qed

theorem arrow_head_triangle_witness:
  "compose_base env_fallback = Inr canvas_fallback \<and>
   Polygon [(402, 190), (380, 180), (380, 200)] (150, 150, 160) \<in> set (im_ops canvas_fallback) \<and>
   compose_2x env_fallback = Inr canvas_fallback_2x \<and>
   Polygon [(804, 380), (760, 360), (760, 400)] (150, 150, 160)
     \<in> set (im_ops canvas_fallback_2x)"
  using arrow_head_triangle [of env_fallback canvas_fallback canvas_fallback_2x]
  by (simp add: compose_base_fallback compose_2x_fallback)

subsection \<open>The caption\<close>

text \<open>
  C4. The only text drawn on the base canvas is the string "Drag to install", in colour
  (100,100,110), in the font chosen by the font step, at y = 202 and with its left
  x-coordinate equal to (250+400) div 2 minus half the width measured for that string in
  that font (the right edge of the measured box minus its left edge, halved with floor
  division). On the second canvas it is at y = 404 and its left x-coordinate is
  (500+800) div 2 minus half the width measured in the second font.
\<close>

theorem caption_placement:
  "(compose_base env = Inr img \<longrightarrow>
      (\<exists>f x0 y0 x1 y1. font env = Inr f \<and>
         textbbox_of env f (0, 0) ''Drag to install'' = (x0, y0, x1, y1) \<and>
         (\<forall>xy s c g. Text xy s c g \<in> set (im_ops img) \<longleftrightarrow>
            xy = ((250 + 400) div 2 - (x1 - x0) div 2, 202) \<and> s = ''Drag to install'' \<and>
            c = (100, 100, 110) \<and> g = f))) \<and>
   (compose_2x env = Inr img_2x \<longrightarrow>
      (\<exists>f x0 y0 x1 y1. font_2x env = Inr f \<and>
         textbbox_of env f (0, 0) ''Drag to install'' = (x0, y0, x1, y1) \<and>
         (\<forall>xy s c g. Text xy s c g \<in> set (im_ops img_2x) \<longleftrightarrow>
            xy = ((500 + 800) div 2 - (x1 - x0) div 2, 404) \<and> s = ''Drag to install'' \<and>
            c = (100, 100, 110) \<and> g = f))) \<and>
   text_y = 202 \<and> text_y = arrow_y + 12 \<and> text_y_2x = 404 \<and> text_y_2x = arrow_y_2x + 24"
proof (intro conjI impI)
  assume "compose_base env = Inr img"
  from compose_base_ok [OF this] obtain f where f: "font env = Inr f"
    and i: "im_ops img = [Line [(250, 190), (400, 190)] (150, 150, 160) 2,
               Polygon [(402, 190), (380, 180), (380, 200)] (150, 150, 160),
               Text (325 - text_width (textbbox_of env f (0, 0) ''Drag to install'') div 2, 202)
                 ''Drag to install'' (100, 100, 110) f]"
    by auto
  obtain x0 y0 x1 y1 where b: "textbbox_of env f (0, 0) ''Drag to install'' = (x0, y0, x1, y1)"
    using prod_cases4 by blast
  show "\<exists>f x0 y0 x1 y1. font env = Inr f \<and>
         textbbox_of env f (0, 0) ''Drag to install'' = (x0, y0, x1, y1) \<and>
         (\<forall>xy s c g. Text xy s c g \<in> set (im_ops img) \<longleftrightarrow>
            xy = ((250 + 400) div 2 - (x1 - x0) div 2, 202) \<and> s = ''Drag to install'' \<and>
            c = (100, 100, 110) \<and> g = f)"
    using f b i by (auto simp: text_width_def)
next
  assume "compose_2x env = Inr img_2x"
  from compose_2x_ok [OF this] obtain f where f: "font_2x env = Inr f"
    and i: "im_ops img_2x = [Line [(500, 380), (800, 380)] (150, 150, 160) 4,
               Polygon [(804, 380), (760, 360), (760, 400)] (150, 150, 160),
               Text (650 - text_width (textbbox_of env f (0, 0) ''Drag to install'') div 2, 404)
                 ''Drag to install'' (100, 100, 110) f]"
    by auto
  obtain x0 y0 x1 y1 where b: "textbbox_of env f (0, 0) ''Drag to install'' = (x0, y0, x1, y1)"
    using prod_cases4 by blast
  show "\<exists>f x0 y0 x1 y1. font_2x env = Inr f \<and>
         textbbox_of env f (0, 0) ''Drag to install'' = (x0, y0, x1, y1) \<and>
         (\<forall>xy s c g. Text xy s c g \<in> set (im_ops img_2x) \<longleftrightarrow>
            xy = ((500 + 800) div 2 - (x1 - x0) div 2, 404) \<and> s = ''Drag to install'' \<and>
            c = (100, 100, 110) \<and> g = f)"
    using f b i by (auto simp: text_width_def)
qed (simp_all add: const_defs)

theorem caption_placement_witness:
  "compose_base env_fallback = Inr canvas_fallback \<and>
   Text (280, 202) ''Drag to install'' (100, 100, 110) DefaultFont \<in> set (im_ops canvas_fallback) \<and>
   textbbox_of env_fallback DefaultFont (0, 0) ''Drag to install'' = (0, 0, 90, 11) \<and>
   compose_2x env_fallback = Inr canvas_fallback_2x \<and>
   Text (605, 404) ''Drag to install'' (100, 100, 110) DefaultFont
     \<in> set (im_ops canvas_fallback_2x)"
  using caption_placement [of env_fallback canvas_fallback canvas_fallback_2x]
  by (simp add: compose_base_fallback compose_2x_fallback)
    (simp add: sample_defs)


subsection \<open>The font step\<close>

text \<open>
  C5. Whatever loading /System/Library/Fonts/Helvetica.ttc does in either render (returns
  the font, or raises any exception, a missing file being one), the font step yields a
  font: the loaded one, or the built-in default font when the load raised. Provided no
  other call raises, the script then runs to its last line, both canvases are composed and
  saved under the two output names, and standard output gets the two confirmation lines
  and nothing else.
\<close>

theorem font_fallback:
  assumes "\<And>p s. s \<noteq> Truetype \<Longrightarrow> fault env p s = None"
  shows "(\<exists>f. font env = Inr f \<and>
            (fault env Base Truetype = None \<longrightarrow>
               f = FreeTypeFont ''/System/Library/Fonts/Helvetica.ttc'' 14) \<and>
            (fault env Base Truetype \<noteq> None \<longrightarrow> f = DefaultFont)) \<and>
         (\<exists>f. font_2x env = Inr f \<and>
            (fault env Retina Truetype = None \<longrightarrow>
               f = FreeTypeFont ''/System/Library/Fonts/Helvetica.ttc'' 28) \<and>
            (fault env Retina Truetype \<noteq> None \<longrightarrow> f = DefaultFont)) \<and>
         (\<exists>img img_2x. compose_base env = Inr img \<and> compose_2x env = Inr img_2x \<and>
            script env w =
              (None, w\<lparr>files := (files w)(''dmg-background.png'' \<mapsto> png env img,
                                          ''dmg-background@2x.png'' \<mapsto> png env img_2x),
                       stdout := stdout w @
                         [''DMG background created: dmg-background.png'',
                          ''DMG background @2x created: dmg-background@2x.png'']\<rparr>))"
proof -
  have f1: "\<exists>f. font env = Inr f \<and>
            (fault env Base Truetype = None \<longrightarrow>
               f = FreeTypeFont ''/System/Library/Fonts/Helvetica.ttc'' 14) \<and>
            (fault env Base Truetype \<noteq> None \<longrightarrow> f = DefaultFont)"
    by (cases "fault env Base Truetype")
      (simp_all add: font_def ImageFont_truetype_def ImageFont_load_default_def call_def assms)
  have f2: "\<exists>f. font_2x env = Inr f \<and>
            (fault env Retina Truetype = None \<longrightarrow>
               f = FreeTypeFont ''/System/Library/Fonts/Helvetica.ttc'' 28) \<and>
            (fault env Retina Truetype \<noteq> None \<longrightarrow> f = DefaultFont)"
    by (cases "fault env Retina Truetype")
      (simp_all add: font_2x_def ImageFont_truetype_def ImageFont_load_default_def call_def assms)
  obtain img where a: "compose_base env = Inr img"
    using compose_base_runs [of env] assms by blast
  obtain img_2x where b: "compose_2x env = Inr img_2x"
    using compose_2x_runs [of env] assms by blast
  have "script env w =
      (None, w\<lparr>files := (files w)(''dmg-background.png'' \<mapsto> png env img,
                                  ''dmg-background@2x.png'' \<mapsto> png env img_2x),
               stdout := stdout w @
                 [''DMG background created: dmg-background.png'',
                  ''DMG background @2x created: dmg-background@2x.png'']\<rparr>)"
    by (simp add: script_def render_base_unfold render_2x_unfold a b assms)
  with a b f1 f2 show ?thesis by blast
qed

theorem font_fallback_witness:
  "fault env_fallback Base Truetype = Some (Exception ''OSError'') \<and>
   font env_fallback = Inr DefaultFont \<and>
   fault env_fallback Retina Truetype = Some (Exception ''OSError'') \<and>
   font_2x env_fallback = Inr DefaultFont \<and>
   fst (script env_fallback empty_world) = None \<and>
   stdout (snd (script env_fallback empty_world)) =
     [''DMG background created: dmg-background.png'',
      ''DMG background @2x created: dmg-background@2x.png''] \<and>
   font env_helvetica = Inr (FreeTypeFont ''/System/Library/Fonts/Helvetica.ttc'' 14) \<and>
   font_2x env_helvetica = Inr (FreeTypeFont ''/System/Library/Fonts/Helvetica.ttc'' 28) \<and>
   fst (script env_helvetica empty_world) = None"
proof -
  have h: "\<And>p s. s \<noteq> Truetype \<Longrightarrow> fault env_fallback p s = None"
    by (simp add: env_fallback_sel)
  have k: "\<And>p s. s \<noteq> Truetype \<Longrightarrow> fault env_helvetica p s = None"
    by (simp add: env_helvetica_def)
  have n: "fault env_helvetica Base Truetype = None" "fault env_helvetica Retina Truetype = None"
    by (simp_all add: env_helvetica_def)
  from font_fallback [OF h, of empty_world] font_fallback [OF k, of empty_world] n
  show ?thesis
    by (auto simp: env_fallback_sel empty_world_def)
qed

subsection \<open>The second render against the first\<close>

text \<open>
  C6. The second render is the first one with every layout constant doubled: it is the
  compositor of the specification run on the base layout (canvas 660 by 400, arrow y 190,
  arrow from x 250 to x 400, line width 2, tip offset 2, arrowhead size 20 and half-size
  10, text offset 12, font size 14) scaled by 2, where the first render is the same
  compositor on the base layout itself. The font size asked for is 28, twice 14, and the
  result goes to a second file, whose name differs from the first.
\<close>

theorem second_render_is_first_doubled:
  "compose_base env = compose_layout env Base base_layout \<and>
   compose_2x env = compose_layout env Retina (scale_layout 2 base_layout) \<and>
   render_base env w =
     render_layout env Base base_layout output_path ''DMG background created: '' w \<and>
   render_2x env w =
     render_layout env Retina (scale_layout 2 base_layout) output_path_2x
       ''DMG background @2x created: '' w \<and>
   scale_layout 2 base_layout =
     \<lparr>canvas_w = 1320, canvas_h = 800, line_y = 380, line_start_x = 500, line_end_x = 800,
      line_width = 4, tip_offset = 4, head_size = 40, head_half = 20, text_dy = 24,
      font_size = 28\<rparr> \<and>
   font_size (scale_layout 2 base_layout) = 2 * font_size base_layout \<and>
   output_path_2x \<noteq> output_path"
proof -
  have a: "compose_base env = compose_layout env Base base_layout"
    by (simp add: compose_base_def compose_layout_def base_layout_def font_def
        select_font_def const_defs)
  have b: "compose_2x env = compose_layout env Retina (scale_layout 2 base_layout)"
    by (simp add: compose_2x_def compose_layout_def base_layout_def scale_layout_def
        font_2x_def select_font_def const_defs)
  have c: "render_base env w =
     render_layout env Base base_layout output_path ''DMG background created: '' w"
    by (simp add: render_base_def render_layout_def a)
  have d: "render_2x env w =
     render_layout env Retina (scale_layout 2 base_layout) output_path_2x
       ''DMG background @2x created: '' w"
    by (simp add: render_2x_def render_layout_def b)
  have e: "scale_layout 2 base_layout =
     \<lparr>canvas_w = 1320, canvas_h = 800, line_y = 380, line_start_x = 500, line_end_x = 800,
      line_width = 4, tip_offset = 4, head_size = 40, head_half = 20, text_dy = 24,
      font_size = 28\<rparr>"
    by (simp add: base_layout_def scale_layout_def const_defs)
  have f: "font_size (scale_layout 2 base_layout) = 2 * font_size base_layout"
    by (simp add: base_layout_def scale_layout_def)
  have g: "output_path_2x \<noteq> output_path"
    by (simp add: output_path_def output_path_2x_def)
  from a b c d e f g show ?thesis by blast
qed

subsection \<open>The background\<close>

text \<open>
  C7. A new canvas has the colour (240,240,245) at every pixel. On each of the two
  composed canvases, which are the ones saved, a pixel that none of the drawing calls
  covers (the arrow line, the arrowhead triangle, the caption) still has the colour
  (240,240,245).
\<close>

theorem background_frame:
  "(Image_new env p mode sz (240, 240, 245) = Inr img0 \<longrightarrow> pixel env img0 q = (240, 240, 245)) \<and>
   (compose_base env = Inr img \<longrightarrow> (\<forall>op \<in> set (im_ops img). \<not> covers env op q) \<longrightarrow>
      pixel env img q = (240, 240, 245)) \<and>
   (compose_2x env = Inr img_2x \<longrightarrow> (\<forall>op \<in> set (im_ops img_2x). \<not> covers env op q) \<longrightarrow>
      pixel env img_2x q = (240, 240, 245))"
proof -
  have new: "pixel env img0 q = (240, 240, 245)"
    if "Image_new env p mode sz (240, 240, 245) = Inr img0"
    using that by (auto simp: Image_new_def call_def pixel_def split: option.splits)
  have base: "pixel env img q = (240, 240, 245)"
    if c: "compose_base env = Inr img" and n: "\<forall>op \<in> set (im_ops img). \<not> covers env op q"
  proof -
    have "im_bg img = (240, 240, 245)" using compose_base_ok [OF c] by auto
    then show ?thesis by (simp add: pixel_def fold_paint_frame [OF n])
  qed
  have retina: "pixel env img_2x q = (240, 240, 245)"
    if c: "compose_2x env = Inr img_2x"
      and n: "\<forall>op \<in> set (im_ops img_2x). \<not> covers env op q"
  proof -
    have "im_bg img_2x = (240, 240, 245)" using compose_2x_ok [OF c] by auto
    then show ?thesis by (simp add: pixel_def fold_paint_frame [OF n])
  qed
  from new base retina show ?thesis by blast
qed

theorem background_frame_witness:
  "compose_base env_fallback = Inr canvas_fallback \<and>
   pixel env_fallback canvas_fallback (10, 10) = (240, 240, 245) \<and>
   compose_2x env_fallback = Inr canvas_fallback_2x \<and>
   pixel env_fallback canvas_fallback_2x (1000, 700) = (240, 240, 245) \<and>
   pixel env_fallback canvas_fallback (300, 190) = (150, 150, 160)"
proof -
  have n1: "\<forall>op \<in> set (im_ops canvas_fallback). \<not> covers env_fallback op (10, 10)"
    by (simp add: env_fallback_sel sample_defs)
  have n2: "\<forall>op \<in> set (im_ops canvas_fallback_2x). \<not> covers env_fallback op (1000, 700)"
    by (simp add: env_fallback_sel sample_defs)
  have inked: "pixel env_fallback canvas_fallback (300, 190) = (150, 150, 160)"
    by (simp add: pixel_def paint_def env_fallback_sel sample_defs)
  from background_frame [of env_fallback Base "''RGB''" "(660, 400)" canvas_fallback "(10, 10)"
      canvas_fallback canvas_fallback_2x]
    background_frame [of env_fallback Base "''RGB''" "(660, 400)" canvas_fallback "(1000, 700)"
      canvas_fallback canvas_fallback_2x]
  show ?thesis
    using n1 n2 inked by (simp add: compose_base_fallback compose_2x_fallback)
qed


subsection \<open>Repeated runs\<close>

text \<open>
  C8. What a run does is fixed by the environment (which calls raise, the font found, the
  library's measurement and encoder) and by nothing else: from any two states of the
  working directory and of standard output, two runs in the same environment end the same
  way, and when they reach the last line the two output files hold the same bytes. In
  particular running the script again over its own output leaves every file as it was.
\<close>

theorem deterministic:
  "fst (script env w1) = fst (script env w2) \<and>
   (fst (script env w1) = None \<longrightarrow>
      files (snd (script env w1)) output_path = files (snd (script env w2)) output_path \<and>
      files (snd (script env w1)) output_path_2x = files (snd (script env w2)) output_path_2x \<and>
      files (snd (script env (snd (script env w1)))) = files (snd (script env w1)))"
proof -
  have outcome: "fst (script env w1) = fst (script env w2)"
    by (rule fst_script_any)
  have same: "files (snd (script env w1)) output_path = files (snd (script env w2)) output_path \<and>
      files (snd (script env w1)) output_path_2x = files (snd (script env w2)) output_path_2x \<and>
      files (snd (script env (snd (script env w1)))) = files (snd (script env w1))"
    if ok: "fst (script env w1) = None"
  proof -
    have ok2: "fst (script env w2) = None"
      using ok outcome by simp
    have ok3: "fst (script env (snd (script env w1))) = None"
      using ok fst_script_any [of env "snd (script env w1)" w1] by simp
    from script_done [OF ok] script_done [OF ok2] script_done [OF ok3]
    show ?thesis
      by (auto simp: output_path_def output_path_2x_def)
  qed
  from outcome same show ?thesis by blast
qed

theorem deterministic_witness:
  "fst (script env_fallback empty_world) = None \<and>
   fst (script env_fallback stale_world) = None \<and>
   files (snd (script env_fallback empty_world)) output_path =
     files (snd (script env_fallback stale_world)) output_path \<and>
   files (snd (script env_fallback empty_world)) output_path_2x =
     files (snd (script env_fallback stale_world)) output_path_2x \<and>
   files stale_world output_path \<noteq> files (snd (script env_fallback stale_world)) output_path"
  using deterministic [of env_fallback empty_world stale_world]
  by (simp add: script_fallback)
    (simp add: stale_world_def output_path_def sample_png_def canvas_fallback_def)

subsection \<open>Files and output\<close>

text \<open>
  C9. A run that reaches the last line has written the files dmg-background.png and
  dmg-background@2x.png (relative names, so in the working directory), each holding the
  encoded canvas whatever was there before, has touched no other file, and has added to
  standard output one confirmation line per file, containing the file's name. In every
  run, however it ends, a confirmation line is printed only once the file it names has
  been saved.
\<close>

theorem outputs_on_success:
  "(script env w = (None, w') \<longrightarrow>
      (\<exists>img img_2x. compose_base env = Inr img \<and> compose_2x env = Inr img_2x \<and>
         files w' = (files w)(''dmg-background.png'' \<mapsto> png env img,
                              ''dmg-background@2x.png'' \<mapsto> png env img_2x) \<and>
         stdout w' = stdout w @ [''DMG background created: '' @ ''dmg-background.png'',
                                ''DMG background @2x created: '' @ ''dmg-background@2x.png''])) \<and>
   (script env w = (r, w'') \<longrightarrow>
      (\<exists>out. stdout w'' = stdout w @ out \<and>
         (''DMG background created: dmg-background.png'' \<in> set out \<longrightarrow>
            (\<exists>img. compose_base env = Inr img \<and>
                   files w'' ''dmg-background.png'' = Some (png env img))) \<and>
         (''DMG background @2x created: dmg-background@2x.png'' \<in> set out \<longrightarrow>
            (\<exists>img_2x. compose_2x env = Inr img_2x \<and>
                   files w'' ''dmg-background@2x.png'' = Some (png env img_2x)))))"
proof -
  have finished: "\<exists>img img_2x. compose_base env = Inr img \<and> compose_2x env = Inr img_2x \<and>
         files w' = (files w)(''dmg-background.png'' \<mapsto> png env img,
                              ''dmg-background@2x.png'' \<mapsto> png env img_2x) \<and>
         stdout w' = stdout w @ [''DMG background created: '' @ ''dmg-background.png'',
                                ''DMG background @2x created: '' @ ''dmg-background@2x.png'']"
    if run: "script env w = (None, w')"
  proof -
    obtain w1 where b: "render_base env w = (None, w1)" and r: "render_2x env w1 = (None, w')"
      using script_ok [OF run] by blast
    from render_base_ok [OF b] render_2x_ok [OF r] show ?thesis by auto
  qed
  have order: "\<exists>out. stdout w'' = stdout w @ out \<and>
         (''DMG background created: dmg-background.png'' \<in> set out \<longrightarrow>
            (\<exists>img. compose_base env = Inr img \<and>
                   files w'' ''dmg-background.png'' = Some (png env img))) \<and>
         (''DMG background @2x created: dmg-background@2x.png'' \<in> set out \<longrightarrow>
            (\<exists>img_2x. compose_2x env = Inr img_2x \<and>
                   files w'' ''dmg-background@2x.png'' = Some (png env img_2x)))"
    if run: "script env w = (r, w'')"
    using run
    by (auto simp: script_def render_base_unfold render_2x_unfold
        split: sum.splits option.splits)
  from finished order show ?thesis by blast
qed

theorem outputs_on_success_witness:
  "script env_fallback stale_world =
     (None, \<lparr>files = [''dmg-background.png'' \<mapsto> sample_png canvas_fallback,
                      ''dmg-background@2x.png'' \<mapsto> sample_png canvas_fallback_2x],
             stdout = [''DMG background created: dmg-background.png'',
                       ''DMG background @2x created: dmg-background@2x.png'']\<rparr>) \<and>
   compose_base env_fallback = Inr canvas_fallback \<and>
   compose_2x env_fallback = Inr canvas_fallback_2x"
  using outputs_on_success [of env_fallback stale_world "snd (script env_fallback stale_world)"
      None "snd (script env_fallback stale_world)"]
  by (simp add: script_fallback compose_base_fallback compose_2x_fallback)
    (simp add: stale_world_def)

subsection \<open>Order of the two renders\<close>

text \<open>
  C10. The second render starts only when the first has saved dmg-background.png and
  printed its confirmation line: a first render that raises ends the run, and otherwise
  the rest of the run is the second render, started in a world that holds the file and
  the line. Whatever the second render then does, and in particular when any of its calls
  or its save raises, the file dmg-background.png and the confirmation line are still
  there at the end.
\<close>

theorem base_saved_before_2x:
  "(render_base env w = (Some e, w0) \<longrightarrow> script env w = (Some e, w0)) \<and>
   (render_base env w = (None, w1) \<longrightarrow>
      (\<exists>img. compose_base env = Inr img \<and>
         files w1 ''dmg-background.png'' = Some (png env img) \<and>
         stdout w1 = stdout w @ [''DMG background created: dmg-background.png''] \<and>
         script env w = render_2x env w1 \<and>
         (\<forall>r w2. script env w = (r, w2) \<longrightarrow>
            files w2 ''dmg-background.png'' = Some (png env img) \<and>
            take (Suc (length (stdout w))) (stdout w2) = stdout w1)))"
proof -
  have stop: "script env w = (Some e, w0)" if "render_base env w = (Some e, w0)"
    using that by (simp add: script_def)
  have go: "\<exists>img. compose_base env = Inr img \<and>
         files w1 ''dmg-background.png'' = Some (png env img) \<and>
         stdout w1 = stdout w @ [''DMG background created: dmg-background.png''] \<and>
         script env w = render_2x env w1 \<and>
         (\<forall>r w2. script env w = (r, w2) \<longrightarrow>
            files w2 ''dmg-background.png'' = Some (png env img) \<and>
            take (Suc (length (stdout w))) (stdout w2) = stdout w1)"
    if b: "render_base env w = (None, w1)"
  proof -
    from render_base_ok [OF b] obtain img where c: "compose_base env = Inr img"
      and w1: "w1 = w\<lparr>files := (files w)(''dmg-background.png'' \<mapsto> png env img),
                  stdout := stdout w @ [''DMG background created: dmg-background.png'']\<rparr>"
      by blast
    have s: "script env w = render_2x env w1" using b by (simp add: script_def)
    have keep: "files w2 ''dmg-background.png'' = Some (png env img) \<and>
            take (Suc (length (stdout w))) (stdout w2) = stdout w1"
      if "render_2x env w1 = (r, w2)" for r w2
      using that
      by (auto simp: render_2x_unfold w1 split: sum.splits option.splits)
    from c w1 s keep show ?thesis by auto
  qed
  from stop go show ?thesis by blast
qed

theorem base_saved_before_2x_witness:
  "render_base env_disk_full empty_world =
     (None, \<lparr>files = [''dmg-background.png'' \<mapsto> sample_png canvas_fallback],
             stdout = [''DMG background created: dmg-background.png'']\<rparr>) \<and>
   script env_disk_full empty_world =
     (Some (Exception ''OSError''),
      \<lparr>files = [''dmg-background.png'' \<mapsto> sample_png canvas_fallback,
                ''dmg-background@2x.png'' \<mapsto> []],
       stdout = [''DMG background created: dmg-background.png'']\<rparr>)"
proof -
  have b: "render_base env_disk_full empty_world =
     (None, \<lparr>files = [''dmg-background.png'' \<mapsto> sample_png canvas_fallback],
             stdout = [''DMG background created: dmg-background.png'']\<rparr>)"
    by (simp add: render_base_unfold compose_base_disk_full env_disk_full_sel empty_world_def)
  have r: "render_2x env_disk_full
       \<lparr>files = [''dmg-background.png'' \<mapsto> sample_png canvas_fallback],
        stdout = [''DMG background created: dmg-background.png'']\<rparr> =
     (Some (Exception ''OSError''),
      \<lparr>files = [''dmg-background.png'' \<mapsto> sample_png canvas_fallback,
                ''dmg-background@2x.png'' \<mapsto> []],
       stdout = [''DMG background created: dmg-background.png'']\<rparr>)"
    by (simp add: render_2x_unfold compose_2x_disk_full env_disk_full_sel)
  from base_saved_before_2x [of env_disk_full empty_world "Exception ''OSError''" empty_world
      "\<lparr>files = [''dmg-background.png'' \<mapsto> sample_png canvas_fallback],
        stdout = [''DMG background created: dmg-background.png'']\<rparr>"]
  show ?thesis using b r by auto
qed

end
